theory Spec2Isabelle
  imports Complex_Main
begin

section \<open>Exceptions\<close>

text \<open>
  Every exception the program can raise is a value. All configuration errors of the
  source are \<open>ValueError\<close>s told apart by their message only. \<open>TypeError\<close>,
  \<open>ZeroDivisionError\<close> and \<open>RecursionError\<close> are raised by the interpreter itself;
  \<open>RuntimeError\<close> is what the numerical library raises when an iteration cap is hit.
  Python floats are modelled as reals: rounding is not part of the model.
\<close>

datatype error =
    ValueError string
  | TypeError
  | ZeroDivisionError
  | RecursionError
  | RuntimeError

section \<open>Location and Surface\<close>

record location =
  distance_from_sun_au :: real
  q_S :: real

definition Location :: "real \<Rightarrow> error + location" where
  "Location d =
     (if d ^ 2 = 0 then Inl ZeroDivisionError
      else Inr \<lparr>distance_from_sun_au = d, q_S = 1380.73 / d ^ 2\<rparr>)"

record surface =
  emissivity :: real
  absorptance :: real
  emission_area :: real
  sun_facing_area :: real
  temperature_offset :: real
  T :: "real option"

definition stefan_boltzmann_constant :: real where
  "stefan_boltzmann_constant = 5670374419 / 10 ^ 17"

text \<open>The constructor, with every default written out by the caller.\<close>

definition Surface :: "real \<Rightarrow> real \<Rightarrow> real \<Rightarrow> real \<Rightarrow> real \<Rightarrow> real \<Rightarrow> surface" where
  "Surface ea sfa em ab angle_to_sun_deg off =
     \<lparr>emissivity = em, absorptance = ab, emission_area = ea,
      sun_facing_area = sfa * (if angle_to_sun_deg \<noteq> 0 then cos (angle_to_sun_deg * pi / 180) else 1),
      temperature_offset = off, T = None\<rparr>"

definition set_T :: "surface \<Rightarrow> real \<Rightarrow> surface" where
  "set_T self t = self\<lparr>T := Some (t + temperature_offset self)\<rparr>"

definition radiated_heat :: "surface \<Rightarrow> real \<Rightarrow> real" where
  "radiated_heat self t =
     (let T_perceived = t + temperature_offset self
      in emissivity self * stefan_boltzmann_constant * emission_area self * (T_perceived ^ 4))"

definition direct_solar_thermal_heat_received :: "surface \<Rightarrow> location \<Rightarrow> real" where
  "direct_solar_thermal_heat_received self l = q_S l * absorptance self * sun_facing_area self"

text \<open>
  An argument that may be one object, a list, a dict (an association list in insertion
  order) or anything else.
\<close>

datatype 'a py_arg = Obj 'a | List "'a list" | Dict "(string \<times> 'a) list" | Other

definition invalid_surfaces_msg :: string where
  "invalid_surfaces_msg = ''Invalid format for 'surfaces' or 'radiators': must be a Surface, list of Surfaces, or a dict of Surfaces. Quitting.''"

fun clean_surfaces_input :: "surface py_arg \<Rightarrow> error + surface list" where
  "clean_surfaces_input (Obj s) = Inr [s]"
| "clean_surfaces_input (Dict kvs) = Inr (map snd kvs)"
| "clean_surfaces_input (List xs) = Inr xs"
| "clean_surfaces_input Other = Inl (ValueError invalid_surfaces_msg)"

section \<open>Heat sources\<close>

text \<open>
  \<open>Photovoltaic.temperature_limits\<close> is a dict held by the class, not by an instance:
  it is a piece of global state, threaded through every function that reads or writes it.
\<close>

record temperature_limits =
  limit_min :: real
  limit_max :: real

definition initial_temperature_limits :: temperature_limits where
  "initial_temperature_limits = \<lparr>limit_min = - 100 + 273.15, limit_max = 150 + 273.15\<rparr>"

record photovoltaic =
  pv_loc :: location
  eta_lab :: real
  T_ref :: real
  age_years :: real
  pv_surfaces :: "surface list"
  total_collection_area :: real
  total_radiative_area :: real
  eta_non_thermal :: "real option"

text \<open>
  The attributes each class adds. \<open>Reactor\<close> and \<open>SolarAbsorber\<close> are Turbines: they
  inherit \<open>q_w\<close>, \<open>w\<close> and the attributes \<open>qt\<close> and \<open>T_H\<close>. The attribute \<open>T_C\<close>,
  which every heat source has, is a field of the record \<open>heat_source\<close> below.
\<close>

datatype hs_body =
    HeatSource (q_w_attr: real)
  | PowerSource (w_attr: real) (q_w_attr: real)
  | Turbine (qt: real) (T_H: real)
  | Reactor (qt: real) (T_H: real)
  | SolarAbsorber (qt: real) (T_H: real) (surfaces: "surface list")
      (q_incident: real) (q_emitted: real)
  | Photovoltaic (pv: photovoltaic)

record heat_source =
  body :: hs_body
  T_C :: "real option"

text \<open>The test \<open>"T_H" in hs.__dict__\<close>: the attribute is set by \<open>Turbine.__init__\<close> only.\<close>

fun has_T_H :: "hs_body \<Rightarrow> bool" where
  "has_T_H (Turbine _ _) = True"
| "has_T_H (Reactor _ _) = True"
| "has_T_H (SolarAbsorber _ _ _ _ _) = True"
| "has_T_H _ = False"

section \<open>ThermalLoop: construction\<close>

record thermal_loop =
  loc :: location
  T_C_cache :: "real option"
  heat_sources :: "heat_source list"
  radiators :: "surface list"
  min_T_H :: real

definition invalid_heat_sources_msg :: string where
  "invalid_heat_sources_msg = ''Invalid format for 'heat_sources': must be a HeatSource, list of HeatSources, or a dict of HeatSources. Quitting.''"

fun clean_heat_sources_input :: "heat_source py_arg \<Rightarrow> error + heat_source list" where
  "clean_heat_sources_input (Obj h) = Inr [h]"
| "clean_heat_sources_input (Dict kvs) = Inr (map snd kvs)"
| "clean_heat_sources_input (List xs) = Inr xs"
| "clean_heat_sources_input Other = Inl (ValueError invalid_heat_sources_msg)"

text \<open>Python's \<open>min\<close> of a list: the first of the smallest elements; it raises on \<open>[]\<close>.\<close>

fun py_min :: "real list \<Rightarrow> error + real" where
  "py_min [] = Inl (ValueError ''min() arg is an empty sequence'')"
| "py_min (x # xs) = Inr (fold (\<lambda>y m. if y < m then y else m) xs x)"

definition hsT_H :: "heat_source list \<Rightarrow> real list" where
  "hsT_H hss = map (\<lambda>hs. T_H (body hs)) (filter (\<lambda>hs. has_T_H (body hs)) hss) @ [10000]"

definition ThermalLoop ::
  "location \<Rightarrow> heat_source py_arg \<Rightarrow> surface py_arg \<Rightarrow> error + thermal_loop" where
  "ThermalLoop l hs_arg rad_arg =
     (case clean_heat_sources_input hs_arg of
        Inl e \<Rightarrow> Inl e
      | Inr hss \<Rightarrow>
         (case clean_surfaces_input rad_arg of
            Inl e \<Rightarrow> Inl e
          | Inr rads \<Rightarrow>
             (case py_min (hsT_H hss) of
                Inl e \<Rightarrow> Inl e
              | Inr m \<Rightarrow>
                  Inr \<lparr>loc = l, T_C_cache = None, heat_sources = hss, radiators = rads,
                       min_T_H = m\<rparr>)))"

section \<open>Heat sources: waste heat\<close>

text \<open>
  Every \<open>q_w\<close> is called by the loop with an explicit cold-side temperature; the
  default argument (\<open>T_C = None\<close>, used for display only) is not modelled.
\<close>

definition eta_p :: real where
  "eta_p = 0.70"

text \<open>\<open>Turbine.eta_C\<close>: the division raises when \<open>T_H\<close> is zero and \<open>T_C\<close> negative.\<close>

definition eta_C :: "hs_body \<Rightarrow> real \<Rightarrow> error + real" where
  "eta_C self t =
     (if t < T_H self then
        (if T_H self = 0 then Inl ZeroDivisionError else Inr (1 - t / T_H self))
      else Inr 0)"

definition eta_T :: "hs_body \<Rightarrow> real \<Rightarrow> error + real" where
  "eta_T self t = (case eta_C self t of Inl e \<Rightarrow> Inl e | Inr c \<Rightarrow> Inr (eta_p * c))"

definition turbine_w :: "hs_body \<Rightarrow> real \<Rightarrow> error + real" where
  "turbine_w self t = (case eta_T self t of Inl e \<Rightarrow> Inl e | Inr c \<Rightarrow> Inr (qt self * c))"

definition turbine_q_w :: "hs_body \<Rightarrow> real \<Rightarrow> error + real" where
  "turbine_q_w self t = (case turbine_w self t of Inl e \<Rightarrow> Inl e | Inr w \<Rightarrow> Inr (qt self - w))"

definition non_optimal_illumination_factor :: real where
  "non_optimal_illumination_factor = 0.8"

definition c_a_at_earth :: real where
  "c_a_at_earth = - 3.4 / 100"

definition c_t :: real where
  "c_t = - 0.2 / 100"

definition reflection_fraction :: real where
  "reflection_fraction = 5 / 1000"

definition eta_N :: "photovoltaic \<Rightarrow> real" where
  "eta_N self = non_optimal_illumination_factor * eta_lab self"

definition c_a :: "photovoltaic \<Rightarrow> error + real" where
  "c_a self =
     (if distance_from_sun_au (pv_loc self) ^ 2 = 0 then Inl ZeroDivisionError
      else Inr (c_a_at_earth / (distance_from_sun_au (pv_loc self) ^ 2)))"

text \<open>
  \<open>Photovoltaic.eta_overall\<close> reads the class-level limits, and on the first call that
  passes both window tests it stores \<open>eta_non_thermal\<close> on the instance and overwrites
  the class-level \<open>"max"\<close> entry. It returns the value, the limits and the instance.
\<close>

definition eta_overall ::
  "photovoltaic \<Rightarrow> temperature_limits \<Rightarrow> real \<Rightarrow> error + real \<times> temperature_limits \<times> photovoltaic" where
  "eta_overall self lims t =
     (if t \<le> limit_min lims then Inr (0, lims, self)
      else if t \<ge> limit_max lims then Inr (0, lims, self)
      else
        (case eta_non_thermal self of
           Some e \<Rightarrow> Inr (e + c_t * (t - T_ref self), lims, self)
         | None \<Rightarrow>
            (case c_a self of
               Inl err \<Rightarrow> Inl err
             | Inr ca \<Rightarrow>
                (let e = eta_N self + age_years self * ca;
                     lims' = lims\<lparr>limit_max := (- e / c_t) + T_ref self\<rparr>
                 in Inr (e + c_t * (t - T_ref self), lims', self\<lparr>eta_non_thermal := Some e\<rparr>)))))"

definition photovoltaic_w ::
  "photovoltaic \<Rightarrow> temperature_limits \<Rightarrow> real \<Rightarrow> error + real \<times> temperature_limits \<times> photovoltaic" where
  "photovoltaic_w self lims t =
     (case eta_overall self lims t of
        Inl e \<Rightarrow> Inl e
      | Inr (eta, lims', self') \<Rightarrow>
          Inr (eta * q_S (pv_loc self') * total_collection_area self', lims', self'))"

definition photovoltaic_q_w ::
  "photovoltaic \<Rightarrow> temperature_limits \<Rightarrow> real \<Rightarrow> error + real \<times> temperature_limits \<times> photovoltaic" where
  "photovoltaic_q_w self lims t =
     (case eta_overall self lims t of
        Inl e \<Rightarrow> Inl e
      | Inr (eta, lims', self') \<Rightarrow>
          Inr ((1 - reflection_fraction) * (1 - eta) * q_S (pv_loc self') * total_collection_area self',
               lims', self'))"

text \<open>The method \<open>q_w\<close>, dispatched on the class of the heat source.\<close>

definition q_w ::
  "heat_source \<Rightarrow> temperature_limits \<Rightarrow> real \<Rightarrow> error + real \<times> temperature_limits \<times> heat_source" where
  "q_w hs lims t =
     (case body hs of
        HeatSource q \<Rightarrow> Inr (q, lims, hs)
      | PowerSource w q \<Rightarrow> Inr (q, lims, hs)
      | Photovoltaic p \<Rightarrow>
          (case photovoltaic_q_w p lims t of
             Inl e \<Rightarrow> Inl e
           | Inr (q, lims', p') \<Rightarrow> Inr (q, lims', hs\<lparr>body := Photovoltaic p'\<rparr>))
      | _ \<Rightarrow>
          (case turbine_q_w (body hs) t of
             Inl e \<Rightarrow> Inl e
           | Inr q \<Rightarrow> Inr (q, lims, hs)))"

section \<open>ThermalLoop: the residual and the solve\<close>

text \<open>
  The state a solve works on: the class-level limits of \<open>Photovoltaic\<close> and the loop
  with the objects it holds.
\<close>

type_synonym state = "temperature_limits \<times> thermal_loop"

text \<open>\<open>sum([hs.q_w(T_C) for hs in self.heat_sources])\<close>, in list order.\<close>

fun sum_q_w ::
  "heat_source list \<Rightarrow> temperature_limits \<Rightarrow> real \<Rightarrow> error + real \<times> temperature_limits \<times> heat_source list" where
  "sum_q_w [] lims t = Inr (0, lims, [])"
| "sum_q_w (hs # hss) lims t =
     (case q_w hs lims t of
        Inl e \<Rightarrow> Inl e
      | Inr (q, lim1, hs') \<Rightarrow>
         (case sum_q_w hss lim1 t of
            Inl e \<Rightarrow> Inl e
          | Inr (qs, lim2, hss') \<Rightarrow> Inr (q + qs, lim2, hs' # hss')))"

definition radiator_balance :: "state \<Rightarrow> real \<Rightarrow> error + real \<times> state" where
  "radiator_balance s t =
     (case sum_q_w (heat_sources (snd s)) (fst s) t of
        Inl e \<Rightarrow> Inl e
      | Inr (Q_W, lims', hss') \<Rightarrow>
         (let Q_S = sum_list (map (\<lambda>surf. direct_solar_thermal_heat_received surf (loc (snd s)))
                                  (radiators (snd s)));
              Q_E = sum_list (map (\<lambda>surf. radiated_heat surf t) (radiators (snd s)))
          in Inr (Q_E - Q_W - Q_S, (lims', (snd s)\<lparr>heat_sources := hss'\<rparr>))))"

text \<open>
  The bracketed root finder \<open>scipy.optimize.toms748\<close> is not part of the repository: it
  is a parameter of the model. It is given the residual, the state the residual runs
  in, the two ends of the bracket and the relative tolerance.
\<close>

type_synonym 's residual = "'s \<Rightarrow> real \<Rightarrow> error + real \<times> 's"

type_synonym 's bracketing_solver =
  "'s residual \<Rightarrow> 's \<Rightarrow> real \<Rightarrow> real \<Rightarrow> real \<Rightarrow> error + real \<times> 's"

definition infeasible_msg :: string where
  "infeasible_msg = ''A radiator temperature cannot be found that is less than the minimum T_H in the system. You need a larger, more emissive, or less absorptive radiator. Quitting.''"

text \<open>Python's truth value of an attribute that holds \<open>None\<close> or a number.\<close>

definition truthy :: "real option \<Rightarrow> bool" where
  "truthy v = (case v of None \<Rightarrow> False | Some x \<Rightarrow> x \<noteq> 0)"

text \<open>
  The property \<open>T_C\<close>. Its argument \<open>self_equilibrate\<close> is the call
  \<open>self.equilibrate()\<close>, with the default arguments.
\<close>

definition T_C_property :: "(state \<Rightarrow> error + real \<times> state) \<Rightarrow> state \<Rightarrow> error + real \<times> state" where
  "T_C_property self_equilibrate s =
     (if \<not> truthy (T_C_cache (snd s)) then
        (case self_equilibrate s of
           Inl e \<Rightarrow> Inl e
         | Inr (r, (lims, self)) \<Rightarrow> Inr (r, (lims, self\<lparr>T_C_cache := Some r\<rparr>)))
      else Inr (the (T_C_cache (snd s)), s))"

text \<open>
  The two loops at the end of \<open>equilibrate\<close>. Each round reads the property, which may
  change the state, and then writes one object.
\<close>

fun stamp_radiators ::
  "(state \<Rightarrow> error + real \<times> state) \<Rightarrow> nat list \<Rightarrow> state \<Rightarrow> error + state" where
  "stamp_radiators self_T_C [] s = Inr s"
| "stamp_radiators self_T_C (i # is) s =
     (case self_T_C s of
        Inl e \<Rightarrow> Inl e
      | Inr (t, (lims, self)) \<Rightarrow>
          stamp_radiators self_T_C is
            (lims, self\<lparr>radiators := (radiators self)[i := set_T (radiators self ! i) t]\<rparr>))"

fun stamp_heat_sources ::
  "(state \<Rightarrow> error + real \<times> state) \<Rightarrow> nat list \<Rightarrow> state \<Rightarrow> error + state" where
  "stamp_heat_sources self_T_C [] s = Inr s"
| "stamp_heat_sources self_T_C (i # is) s =
     (case self_T_C s of
        Inl e \<Rightarrow> Inl e
      | Inr (t, (lims, self)) \<Rightarrow>
          stamp_heat_sources self_T_C is
            (lims, self\<lparr>heat_sources := (heat_sources self)[i := (heat_sources self ! i)\<lparr>T_C := Some t\<rparr>]\<rparr>))"

text \<open>
  The body of \<open>equilibrate\<close>. Only a \<open>ValueError\<close> of the solver is caught and replaced;
  every other exception passes through.
\<close>

definition equilibrate_body ::
  "(state \<Rightarrow> error + real \<times> state) \<Rightarrow> state bracketing_solver \<Rightarrow> state \<Rightarrow> real \<Rightarrow> error + real \<times> state" where
  "equilibrate_body self_T_C toms748 s tol =
     (case toms748 radiator_balance s 0 (min_T_H (snd s)) tol of
        Inl (ValueError m) \<Rightarrow> Inl (ValueError infeasible_msg)
      | Inl e \<Rightarrow> Inl e
      | Inr (r, (lims, self)) \<Rightarrow>
         (case stamp_radiators self_T_C [0..<length (radiators self)]
                 (lims, self\<lparr>T_C_cache := Some r\<rparr>) of
            Inl e \<Rightarrow> Inl e
          | Inr s1 \<Rightarrow>
             (case stamp_heat_sources self_T_C [0..<length (heat_sources (snd s1))] s1 of
                Inl e \<Rightarrow> Inl e
              | Inr s2 \<Rightarrow> self_T_C s2)))"

text \<open>
  \<open>equilibrate\<close> and the property \<open>T_C\<close> call each other. The first argument bounds
  how deep \<open>equilibrate\<close> may be nested, as the interpreter's recursion limit does;
  beyond it the call raises \<open>RecursionError\<close>.
\<close>

primrec equilibrate ::
  "nat \<Rightarrow> state bracketing_solver \<Rightarrow> state \<Rightarrow> real \<Rightarrow> real \<Rightarrow> error + real \<times> state" where
  "equilibrate 0 toms748 s initial_value tol = Inl RecursionError"
| "equilibrate (Suc d) toms748 s initial_value tol =
     equilibrate_body (T_C_property (\<lambda>s'. equilibrate d toms748 s' 273.15 0.001)) toms748 s tol"

text \<open>Reading \<open>loop.T_C\<close> from outside.\<close>

definition read_T_C :: "nat \<Rightarrow> state bracketing_solver \<Rightarrow> state \<Rightarrow> error + real \<times> state" where
  "read_T_C d toms748 s = T_C_property (\<lambda>s'. equilibrate d toms748 s' 273.15 0.001) s"

section \<open>A bracketing root finder\<close>

text \<open>
  One root finder of the kind the loop expects, to run the model on concrete loops:
  it refuses an empty bracket, returns an end of the bracket where the residual
  vanishes, refuses ends of the same sign, and otherwise halves the bracket until the
  residual vanishes or the bracket is within the tolerance.
\<close>

fun bisect ::
  "nat \<Rightarrow> 's residual \<Rightarrow> 's \<Rightarrow> real \<Rightarrow> real \<Rightarrow> real \<Rightarrow> real \<Rightarrow> real \<Rightarrow> error + real \<times> 's" where
  "bisect 0 f s a fa b fb rtol = Inl RuntimeError"
| "bisect (Suc n) f s a fa b fb rtol =
     (let m = (a + b) / 2 in
      case f s m of
        Inl e \<Rightarrow> Inl e
      | Inr (fm, s') \<Rightarrow>
          if fm = 0 \<or> b - a \<le> 4 * rtol * \<bar>m\<bar> then Inr (m, s')
          else if fa * fm < 0 then bisect n f s' a fa m fm rtol
          else bisect n f s' m fm b fb rtol)"

definition bisection :: "nat \<Rightarrow> 's bracketing_solver" where
  "bisection maxiter f s a b rtol =
     (if a \<ge> b then Inl (ValueError ''a and b are not an interval'')
      else
        (case f s a of
           Inl e \<Rightarrow> Inl e
         | Inr (fa, s1) \<Rightarrow>
            if fa = 0 then Inr (a, s1)
            else
              (case f s1 b of
                 Inl e \<Rightarrow> Inl e
               | Inr (fb, s2) \<Rightarrow>
                  if fb = 0 then Inr (b, s2)
                  else if fa * fb > 0
                    then Inl (ValueError ''f(a) and f(b) must have different signs'')
                  else bisect maxiter f s2 a fa b fb rtol)))"

section \<open>Reactor\<close>

text \<open>
  The catalogue: brand, then model, then the pair \<open>(qt, T_H)\<close> of the entry, in the
  order the source lists them.
\<close>

definition reactors :: "(string \<times> (string \<times> real \<times> real) list) list" where
  "reactors =
     [(''fission_frontiers'',
        [(''tarasque'', (1000000000, 1300)),
         (''guivre'', (2000000000, 1100)),
         (''peluda'', (1000000000, 600)),
         (''lindworm'', (500000000, 950)),
         (''wyvern'', (250000000, 600))]),
      (''fusion_founders'',
        [(''standard_reactor'', (300000000, 1300))])]"

text \<open>\<open>str.lower\<close> on ASCII text.\<close>

definition lower_char :: "char \<Rightarrow> char" where
  "lower_char c =
     (if 65 \<le> (of_char c :: nat) \<and> (of_char c :: nat) \<le> 90
      then char_of ((of_char c :: nat) + 32) else c)"

definition lower :: "string \<Rightarrow> string" where
  "lower s = map lower_char s"

text \<open>Python's truth value of an argument that holds \<open>None\<close> or a string.\<close>

definition truthy_str :: "string option \<Rightarrow> bool" where
  "truthy_str v = (case v of None \<Rightarrow> False | Some x \<Rightarrow> x \<noteq> [])"

definition under_defined_msg :: string where
  "under_defined_msg = ''Reactor is not adequately defined: both of 'qt' and 'T_H' or both of 'brand' and 'model' must be complete! Quitting.''"

definition over_defined_msg :: string where
  "over_defined_msg = ''Reactor is over defined: both of 'qt' and 'T_H' or both of 'brand' and 'model' must be complete, not all of them! Quitting.''"

definition tab :: string where
  "tab = [CHR 0x09]"

definition newline :: string where
  "newline = [CHR 0x0A]"

definition quote :: string where
  "quote = [CHR 0x27]"

text \<open>\<open>sep.join(lines)\<close>.\<close>

fun join :: "string \<Rightarrow> string list \<Rightarrow> string" where
  "join sep [] = []"
| "join sep [x] = x"
| "join sep (x # y # ys) = x @ sep @ join sep (y # ys)"

text \<open>The lines of the message for a pair that is not in the catalogue.\<close>

definition catalogue_lines :: "string list" where
  "catalogue_lines =
     concat (map (\<lambda>(b, models). (tab @ b @ '':'') # map (\<lambda>(m, d). tab @ tab @ m) models)
                 reactors)"

definition not_found_lines :: "string \<Rightarrow> string \<Rightarrow> string list" where
  "not_found_lines brand model =
     (''Reactor '' @ quote @ model @ quote @ '' by '' @ quote @ brand @ quote
        @ '' cannot be found! The valid brands and their models are:'')
     # catalogue_lines"

definition not_found_msg :: "string \<Rightarrow> string \<Rightarrow> string" where
  "not_found_msg brand model = join newline (not_found_lines brand model)"

text \<open>\<open>self.reactors[brand.lower()][model.lower()]\<close>; \<open>None\<close> where it raises.\<close>

definition catalogue_lookup :: "string \<Rightarrow> string \<Rightarrow> (real \<times> real) option" where
  "catalogue_lookup brand model =
     (case map_of reactors (lower brand) of
        None \<Rightarrow> None
      | Some models \<Rightarrow> map_of models (lower model))"

text \<open>
  \<open>Reactor.__init__\<close>. The four arguments default to \<open>None\<close>; \<open>custom\<close> and
  \<open>library\<close> are used for their truth value only.
\<close>

definition Reactor_init ::
  "real option \<Rightarrow> real option \<Rightarrow> string option \<Rightarrow> string option \<Rightarrow> error + heat_source" where
  "Reactor_init qt_arg T_H_arg brand model =
     (let custom = (truthy qt_arg \<and> truthy T_H_arg);
          library = (truthy_str brand \<and> truthy_str model)
      in if \<not> custom \<and> \<not> library then Inl (ValueError under_defined_msg)
         else if custom \<and> library then Inl (ValueError over_defined_msg)
         else if custom then Inr \<lparr>body = Reactor (the qt_arg) (the T_H_arg), T_C = None\<rparr>
         else if library then
           (case catalogue_lookup (the brand) (the model) of
              Some (q, h) \<Rightarrow> Inr \<lparr>body = Reactor q h, T_C = None\<rparr>
            | None \<Rightarrow> Inl (ValueError (not_found_msg (the brand) (the model))))
         else Inl (ValueError []))"

section \<open>SolarAbsorber\<close>

text \<open>The values the argument \<open>qt\<close> may hold.\<close>

datatype pyval =
    PyFloat real
  | PyInt int
  | PyStr string
  | PyNone
  | PyList "pyval list"
  | PyDict "(string \<times> pyval) list"

text \<open>The operator \<open>+\<close> on these values.\<close>

fun py_add :: "pyval \<Rightarrow> pyval \<Rightarrow> error + pyval" where
  "py_add (PyInt a) (PyInt b) = Inr (PyInt (a + b))"
| "py_add (PyInt a) (PyFloat b) = Inr (PyFloat (real_of_int a + b))"
| "py_add (PyFloat a) (PyInt b) = Inr (PyFloat (a + real_of_int b))"
| "py_add (PyFloat a) (PyFloat b) = Inr (PyFloat (a + b))"
| "py_add (PyStr a) (PyStr b) = Inr (PyStr (a @ b))"
| "py_add (PyList a) (PyList b) = Inr (PyList (a @ b))"
| "py_add _ _ = Inl TypeError"

fun py_sum_from :: "pyval \<Rightarrow> pyval list \<Rightarrow> error + pyval" where
  "py_sum_from acc [] = Inr acc"
| "py_sum_from acc (x # xs) =
     (case py_add acc x of Inl e \<Rightarrow> Inl e | Inr acc' \<Rightarrow> py_sum_from acc' xs)"

text \<open>The builtin \<open>sum\<close>: it starts from the integer 0.\<close>

definition py_sum :: "pyval list \<Rightarrow> error + pyval" where
  "py_sum xs = py_sum_from (PyInt 0) xs"

text \<open>The number a value stands for in a comparison with a float.\<close>

fun number_of :: "pyval \<Rightarrow> error + real" where
  "number_of (PyFloat x) = Inr x"
| "number_of (PyInt n) = Inr (real_of_int n)"
| "number_of _ = Inl TypeError"

definition invalid_qt_msg :: string where
  "invalid_qt_msg = ''Invalid format for 'surfaces': must be a Surface, list of Surfaces, or a dict of Surfaces. Quitting.''"

text \<open>
  The format \<open>:.0f\<close> of a number: the nearest integer, a tie going to the even one,
  in decimal digits; a negative number keeps its sign also when it rounds to 0.
\<close>

definition round_half_even :: "real \<Rightarrow> int" where
  "round_half_even x =
     (let f = \<lfloor>x\<rfloor>; d = x - of_int f
      in if d < 1 / 2 then f
         else if 1 / 2 < d then f + 1
         else if even f then f else f + 1)"

definition digit_char :: "nat \<Rightarrow> char" where
  "digit_char n = char_of (48 + n)"

function str_nat :: "nat \<Rightarrow> string" where
  "str_nat n = (if n < 10 then [digit_char n] else str_nat (n div 10) @ [digit_char (n mod 10)])"
  by pat_completeness auto
termination
  by (relation "measure id") auto

declare str_nat.simps [simp del]

definition format_0f :: "real \<Rightarrow> string" where
  "format_0f x = (if x < 0 then ''-'' else []) @ str_nat (nat \<bar>round_half_even x\<bar>)"

text \<open>The message of the feasibility check, with the two formatted totals.\<close>

definition exceeds_msg :: "real \<Rightarrow> real \<Rightarrow> string" where
  "exceeds_msg sum_qt sum_qs =
     ''The sum of qt (~'' @ format_0f sum_qt
     @ '' W), the power pulled from the solar absorber, is greater than the energy that it is receiving (~''
     @ format_0f sum_qs @ ''). Quitting.''"

definition absorber_balance :: "real \<Rightarrow> real \<Rightarrow> surface list \<Rightarrow> real \<Rightarrow> real" where
  "absorber_balance sum_qt sum_qs surfs t =
     (let Q_W = sum_qt;
          Q_S = sum_qs;
          Q_E = sum_list (map (\<lambda>surf. radiated_heat surf t) surfs)
      in Q_E - Q_W - Q_S)"

text \<open>
  The open root finder \<open>scipy.optimize.newton\<close> is a parameter as well: it is given
  the residual, the initial guess, the tolerance and the iteration cap.
\<close>

type_synonym open_solver = "(real \<Rightarrow> real) \<Rightarrow> real \<Rightarrow> real \<Rightarrow> nat \<Rightarrow> error + real"

text \<open>The first statement of the constructor: \<open>sum(qt if isinstance(qt, list) else [qt])\<close>.\<close>

definition first_sum_qt :: "pyval \<Rightarrow> error + pyval" where
  "first_sum_qt qt_arg = py_sum (case qt_arg of PyList xs \<Rightarrow> xs | _ \<Rightarrow> [qt_arg])"

text \<open>The \<open>isinstance\<close> chain that follows it.\<close>

definition second_sum_qt :: "pyval \<Rightarrow> error + pyval" where
  "second_sum_qt qt_arg =
     (case qt_arg of
        PyFloat x \<Rightarrow> Inr qt_arg
      | PyInt n \<Rightarrow> Inr qt_arg
      | PyDict kvs \<Rightarrow> py_sum (map snd kvs)
      | PyList xs \<Rightarrow> py_sum xs
      | _ \<Rightarrow> Inl (ValueError invalid_qt_msg))"

definition SolarAbsorber_init ::
  "open_solver \<Rightarrow> location \<Rightarrow> pyval \<Rightarrow> surface py_arg \<Rightarrow> error + heat_source" where
  "SolarAbsorber_init newton l qt_arg surfaces_arg =
     (case first_sum_qt qt_arg of
        Inl e \<Rightarrow> Inl e
      | Inr _ \<Rightarrow>
     (case second_sum_qt qt_arg of
        Inl e \<Rightarrow> Inl e
      | Inr sum_qt_value \<Rightarrow>
     (case clean_surfaces_input surfaces_arg of
        Inl e \<Rightarrow> Inl e
      | Inr surfs \<Rightarrow>
     (let sum_qs = sum_list (map (\<lambda>surf. direct_solar_thermal_heat_received surf l) surfs) in
      case number_of sum_qt_value of
        Inl e \<Rightarrow> Inl e
      | Inr sum_qt \<Rightarrow>
          if sum_qt > sum_qs then Inl (ValueError (exceeds_msg sum_qt sum_qs))
          else
            (case newton (absorber_balance sum_qt sum_qs surfs) 273.15 0.001 2000 of
               Inl e \<Rightarrow> Inl e
             | Inr h \<Rightarrow>
                 Inr \<lparr>body = SolarAbsorber sum_qt h
                              (map (\<lambda>surf. surf\<lparr>T := Some h\<rparr>) surfs)
                              (sum_list (map (\<lambda>surf. direct_solar_thermal_heat_received surf l) surfs))
                              (sum_list (map (\<lambda>surf. radiated_heat surf h) surfs)),
                      T_C = None\<rparr>)))))"

text \<open>
  One open root finder, to run the constructor on concrete absorbers: it proposes a
  temperature and accepts it when the residual vanishes there.
\<close>

definition propose :: "real \<Rightarrow> open_solver" where
  "propose r f x0 tol maxiter = (if f r = 0 then Inr r else Inl RuntimeError)"

section \<open>Photovoltaic: construction\<close>

definition Photovoltaic_init ::
  "location \<Rightarrow> real \<Rightarrow> real \<Rightarrow> real \<Rightarrow> surface py_arg \<Rightarrow> error + heat_source" where
  "Photovoltaic_init l eta_lab_arg T_ref_arg age_years_arg surfaces_arg =
     (case clean_surfaces_input surfaces_arg of
        Inl e \<Rightarrow> Inl e
      | Inr surfs \<Rightarrow>
         (let surfs' = map (\<lambda>surf. if absorptance surf \<noteq> 0 then surf\<lparr>absorptance := 0\<rparr> else surf) surfs
          in Inr \<lparr>body = Photovoltaic
                     \<lparr>pv_loc = l, eta_lab = eta_lab_arg, T_ref = T_ref_arg,
                      age_years = age_years_arg, pv_surfaces = surfs',
                      total_collection_area = sum_list (map sun_facing_area surfs'),
                      total_radiative_area = sum_list (map emission_area surfs'),
                      eta_non_thermal = None\<rparr>,
                   T_C = None\<rparr>))"

section \<open>Example objects\<close>

definition earth :: location where
  "earth = \<lparr>distance_from_sun_au = 1, q_S = 1380.73\<rparr>"

definition plate :: surface where
  "plate = \<lparr>emissivity = 1, absorptance = 0, emission_area = 1, sun_facing_area = 1,
            temperature_offset = 0, T = None\<rparr>"

definition new_hs :: "hs_body \<Rightarrow> heat_source" where
  "new_hs b = \<lparr>body = b, T_C = None\<rparr>"

text \<open>
  Three loops of one heat source and the radiator \<open>plate\<close>, as the constructor
  builds them: one whose heat load the radiator cannot shed below 10000 K, one without
  any heat load, and one in balance at 5000 K.
\<close>

definition undersized_loop :: thermal_loop where
  "undersized_loop =
     \<lparr>loc = earth, T_C_cache = None, heat_sources = [new_hs (HeatSource 1000000000)],
      radiators = [plate], min_T_H = 10000\<rparr>"

definition cold_loop :: thermal_loop where
  "cold_loop =
     \<lparr>loc = earth, T_C_cache = None, heat_sources = [new_hs (HeatSource 0)],
      radiators = [plate], min_T_H = 10000\<rparr>"

definition hot_loop :: thermal_loop where
  "hot_loop =
     \<lparr>loc = earth, T_C_cache = None, heat_sources = [new_hs (HeatSource 35439840.11875)],
      radiators = [plate], min_T_H = 10000\<rparr>"

text \<open>
  A surface that runs 12.5 K below the system it belongs to, and a loop that has it
  as its only radiator and no heat load. The surface is in balance with the sunlight
  it absorbs at 300 K, that is at a system temperature of 312.5 K.
\<close>

definition offset_plate :: surface where
  "offset_plate =
     \<lparr>emissivity = 1, absorptance = 459300327939 / 1380730000000, emission_area = 1,
      sun_facing_area = 1, temperature_offset = - 12.5, T = None\<rparr>"

definition offset_loop :: thermal_loop where
  "offset_loop =
     \<lparr>loc = earth, T_C_cache = None, heat_sources = [new_hs (HeatSource 0)],
      radiators = [offset_plate], min_T_H = 10000\<rparr>"

text \<open>
  Two photovoltaic panels at 1 AU, new, with the reference temperature 298.15 K and
  the surface \<open>plate\<close>; they differ in their lab efficiency, 0.1 and 0.33.
\<close>

definition weak_panel :: photovoltaic where
  "weak_panel =
     \<lparr>pv_loc = earth, eta_lab = 0.1, T_ref = 298.15, age_years = 0, pv_surfaces = [plate],
      total_collection_area = 1, total_radiative_area = 1, eta_non_thermal = None\<rparr>"

definition strong_panel :: photovoltaic where
  "strong_panel =
     \<lparr>pv_loc = earth, eta_lab = 0.33, T_ref = 298.15, age_years = 0, pv_surfaces = [plate],
      total_collection_area = 1, total_radiative_area = 1, eta_non_thermal = None\<rparr>"



text \<open>
  A 100 W heat source against a radiator of 0.01 square metres and emissivity 0.01,
  with the default absorptance, face on to the sun at 1 AU.
\<close>

definition small_radiator :: surface where
  "small_radiator =
     \<lparr>emissivity = 0.01, absorptance = 0.5, emission_area = 0.01, sun_facing_area = 0.01,
      temperature_offset = 0, T = None\<rparr>"

definition small_loop :: thermal_loop where
  "small_loop =
     \<lparr>loc = earth, T_C_cache = None, heat_sources = [new_hs (HeatSource 100)],
      radiators = [small_radiator], min_T_H = 10000\<rparr>"

text \<open>
  A custom reactor of 918600.655878 W with a hot side of 600 K, and the loop of this
  reactor and one black radiator of emission area \<open>a\<close> that absorbs no sunlight.
\<close>

definition reactor_loop :: "real \<Rightarrow> thermal_loop" where
  "reactor_loop a =
     \<lparr>loc = earth, T_C_cache = None, heat_sources = [new_hs (Reactor 918600.655878 600)],
      radiators = [plate\<lparr>emission_area := a\<rparr>], min_T_H = 600\<rparr>"

text \<open>
  A radiator of emission area \<open>a\<close> that runs 200 K below the system it belongs to, and
  the loop of this radiator and a turbine of 5.670374419 W with a hot side of 200 K:
  everywhere in the bracket the radiator is computed at a negative temperature.
\<close>

definition sunken_radiator :: "real \<Rightarrow> surface" where
  "sunken_radiator a =
     \<lparr>emissivity = 0.65, absorptance = 0, emission_area = a, sun_facing_area = 1,
      temperature_offset = - 200, T = None\<rparr>"

definition sunken_loop :: "real \<Rightarrow> thermal_loop" where
  "sunken_loop a =
     \<lparr>loc = earth, T_C_cache = None, heat_sources = [new_hs (Turbine 5.670374419 200)],
      radiators = [sunken_radiator a], min_T_H = 200\<rparr>"

section \<open>The bracket of the loop solver\<close>

lemma fold_min_eq: "fold (\<lambda>y m. if y < m then y else m) xs (x::real) = Min (set (x # xs))"
proof (induction xs arbitrary: x)
  case Nil
  show ?case by simp
next
  case (Cons y ys)
  have "fold (\<lambda>y m. if y < m then y else m) (y # ys) x
        = fold (\<lambda>y m. if y < m then y else m) ys (min y x)"
    by (simp add: min_def not_less)
  also have "\<dots> = Min (set (min y x # ys))" by (rule Cons.IH)
  also have "\<dots> = Min (set (x # y # ys))"
  proof (cases "ys = []")
    case True
    then show ?thesis by (simp add: min.commute)
  next
    case False
    then show ?thesis by (simp add: min.assoc min.commute min.left_commute)
  qed
  finally show ?case .
qed

lemma Min_snoc_cap: "Min (set (ts @ [c])) = c \<longleftrightarrow> (\<forall>t \<in> set ts. (c::real) \<le> t)"
proof (cases "ts = []")
  case True
  then show ?thesis by simp
next
  case False
  have "Min (set (ts @ [c])) = Min (insert c (set ts))" by simp
  also have "\<dots> = min c (Min (set ts))"
    using False by (intro Min_insert) auto
  finally have "Min (set (ts @ [c])) = c \<longleftrightarrow> c \<le> Min (set ts)"
    by (simp add: min_def)
  also have "\<dots> \<longleftrightarrow> (\<forall>t \<in> set ts. c \<le> t)"
    using False by (intro Min_ge_iff) auto
  finally show ?thesis .
qed

lemma py_min_hsT_H: "py_min (hsT_H hss) = Inr (Min (set (hsT_H hss)))"
proof (cases "hsT_H hss")
  case Nil
  then show ?thesis by (simp add: hsT_H_def)
next
  case (Cons x xs)
  then show ?thesis by (simp add: fold_min_eq)
qed

lemma ThermalLoop_fields:
  assumes "ThermalLoop l hs_arg rad_arg = Inr self"
  shows "min_T_H self = Min (set (hsT_H (heat_sources self)))"
  using assms
  by (auto simp: ThermalLoop_def py_min_hsT_H split: sum.splits)

text \<open>
  C1 (as the code has it). The placeholder 10000 is appended to the list of hot-side
  temperatures before the minimum is taken, so it is a cap and not only a default:
  \<open>min_T_H\<close> is the least of 10000 and the hot-side temperatures of the heat sources
  that have one; heat sources without one do not enter; and the bound is 10000 exactly
  when no heat source has a hot-side temperature below 10000.
\<close>

theorem min_T_H_is_capped_minimum:
  assumes "ThermalLoop l hs_arg rad_arg = Inr self"
  shows "min_T_H self =
           Min (set (map (\<lambda>hs. T_H (body hs)) (filter (\<lambda>hs. has_T_H (body hs)) (heat_sources self)) @ [10000]))
         \<and> (min_T_H self = 10000 \<longleftrightarrow>
              list_all (\<lambda>hs. 10000 \<le> T_H (body hs)) (filter (\<lambda>hs. has_T_H (body hs)) (heat_sources self)))"
proof -
  let ?ts = "map (\<lambda>hs. T_H (body hs)) (filter (\<lambda>hs. has_T_H (body hs)) (heat_sources self))"
  have m: "min_T_H self = Min (set (?ts @ [10000]))"
    using ThermalLoop_fields [OF assms] by (simp add: hsT_H_def)
  have "Min (set (?ts @ [10000])) = 10000 \<longleftrightarrow> (\<forall>t \<in> set ?ts. 10000 \<le> t)"
    by (rule Min_snoc_cap)
  then have "min_T_H self = 10000 \<longleftrightarrow>
      list_all (\<lambda>hs. 10000 \<le> T_H (body hs)) (filter (\<lambda>hs. has_T_H (body hs)) (heat_sources self))"
    using m by (simp add: list_all_iff)
  with m show ?thesis by simp
qed

theorem min_T_H_is_capped_minimum_witness:
  "ThermalLoop earth
     (List [new_hs (HeatSource 100), new_hs (Reactor 1000000000 1300), new_hs (Turbine 500000000 950)])
     (Obj plate)
   = Inr \<lparr>loc = earth, T_C_cache = None,
          heat_sources = [new_hs (HeatSource 100), new_hs (Reactor 1000000000 1300),
                          new_hs (Turbine 500000000 950)],
          radiators = [plate], min_T_H = 950\<rparr>"
proof -
  let ?hss = "[new_hs (HeatSource 100), new_hs (Reactor 1000000000 1300), new_hs (Turbine 500000000 950)]"
  obtain self where h: "ThermalLoop earth (List ?hss) (Obj plate) = Inr self"
    by (simp add: ThermalLoop_def hsT_H_def new_hs_def)
  have hs: "heat_sources self = ?hss" and "loc self = earth" and "T_C_cache self = None"
    and "radiators self = [plate]"
    using h by (auto simp: ThermalLoop_def hsT_H_def new_hs_def split: sum.splits)
  moreover have "min_T_H self = 950"
    using min_T_H_is_capped_minimum [OF h] by (simp add: hs new_hs_def)
  ultimately have "self = \<lparr>loc = earth, T_C_cache = None, heat_sources = ?hss,
      radiators = [plate], min_T_H = 950\<rparr>"
    by simp
  with h show ?thesis by simp
qed

text \<open>
  C1 as stated fails: a single turbine with a hot side of 20000 K has a hot-side
  temperature, yet the bound is the placeholder 10000 and not the turbine's 20000.
\<close>

theorem min_T_H_placeholder_caps_counterexample:
  "has_T_H (Turbine 1000 20000)
   \<and> map_sum id min_T_H (ThermalLoop earth (Obj (new_hs (Turbine 1000 20000))) (Obj plate))
       = Inr 10000"
  by (simp add: ThermalLoop_def hsT_H_def new_hs_def)

section \<open>What a converged solve writes\<close>

lemma T_C_property_cached:
  "truthy (T_C_cache (snd s)) \<Longrightarrow> T_C_property eq s = Inr (the (T_C_cache (snd s)), s)"
  by (simp add: T_C_property_def)

lemma stamp_radiators_from:
  assumes "T_C_cache self = Some r" and "r \<noteq> 0" and "k \<le> length (radiators self)"
  shows "stamp_radiators (T_C_property eq) [k..<length (radiators self)] (lims, self)
         = Inr (lims, self\<lparr>radiators := take k (radiators self)
                                  @ map (\<lambda>surf. set_T surf r) (drop k (radiators self))\<rparr>)"
  using assms
proof (induction "length (radiators self) - k" arbitrary: k self)
  case 0
  then show ?case by simp
next
  case (Suc m)
  let ?rs = "radiators self"
  let ?self' = "self\<lparr>radiators := ?rs[k := set_T (?rs ! k) r]\<rparr>"
  from Suc.hyps(2) have k: "k < length ?rs" by simp
  have tc: "T_C_property eq (lims, self) = Inr (r, (lims, self))"
    using Suc.prems by (simp add: T_C_property_def truthy_def)
  have step: "stamp_radiators (T_C_property eq) [k..<length ?rs] (lims, self)
        = stamp_radiators (T_C_property eq) [Suc k..<length (radiators ?self')] (lims, ?self')"
    using k tc by (simp add: upt_conv_Cons)
  have ih: "stamp_radiators (T_C_property eq) [Suc k..<length (radiators ?self')] (lims, ?self')
        = Inr (lims, ?self'\<lparr>radiators := take (Suc k) (radiators ?self')
                                  @ map (\<lambda>surf. set_T surf r) (drop (Suc k) (radiators ?self'))\<rparr>)"
    using Suc.hyps(2) Suc.prems k by (intro Suc.hyps(1)) simp_all
  have lists: "take (Suc k) (radiators ?self') @ map (\<lambda>surf. set_T surf r) (drop (Suc k) (radiators ?self'))
        = take k ?rs @ map (\<lambda>surf. set_T surf r) (drop k ?rs)"
    using k by (simp add: take_Suc_conv_app_nth Cons_nth_drop_Suc [symmetric])
  show ?case unfolding step ih lists by simp
qed

lemma stamp_heat_sources_from:
  assumes "T_C_cache self = Some r" and "r \<noteq> 0" and "k \<le> length (heat_sources self)"
  shows "stamp_heat_sources (T_C_property eq) [k..<length (heat_sources self)] (lims, self)
         = Inr (lims, self\<lparr>heat_sources := take k (heat_sources self)
                                  @ map (\<lambda>hs. hs\<lparr>T_C := Some r\<rparr>) (drop k (heat_sources self))\<rparr>)"
  using assms
proof (induction "length (heat_sources self) - k" arbitrary: k self)
  case 0
  then show ?case by simp
next
  case (Suc m)
  let ?hs = "heat_sources self"
  let ?self' = "self\<lparr>heat_sources := ?hs[k := (?hs ! k)\<lparr>T_C := Some r\<rparr>]\<rparr>"
  from Suc.hyps(2) have k: "k < length ?hs" by simp
  have tc: "T_C_property eq (lims, self) = Inr (r, (lims, self))"
    using Suc.prems by (simp add: T_C_property_def truthy_def)
  have step: "stamp_heat_sources (T_C_property eq) [k..<length ?hs] (lims, self)
        = stamp_heat_sources (T_C_property eq) [Suc k..<length (heat_sources ?self')] (lims, ?self')"
    using k tc by (simp add: upt_conv_Cons)
  have ih: "stamp_heat_sources (T_C_property eq) [Suc k..<length (heat_sources ?self')] (lims, ?self')
        = Inr (lims, ?self'\<lparr>heat_sources := take (Suc k) (heat_sources ?self')
                                  @ map (\<lambda>hs. hs\<lparr>T_C := Some r\<rparr>) (drop (Suc k) (heat_sources ?self'))\<rparr>)"
    using Suc.hyps(2) Suc.prems k by (intro Suc.hyps(1)) simp_all
  have lists: "take (Suc k) (heat_sources ?self') @ map (\<lambda>hs. hs\<lparr>T_C := Some r\<rparr>) (drop (Suc k) (heat_sources ?self'))
        = take k ?hs @ map (\<lambda>hs. hs\<lparr>T_C := Some r\<rparr>) (drop k ?hs)"
    using k by (simp add: take_Suc_conv_app_nth Cons_nth_drop_Suc [symmetric])
  show ?case unfolding step ih lists by simp
qed

text \<open>
  When the root finder returns a non-zero \<open>r\<close>, \<open>equilibrate\<close> returns \<open>r\<close>, caches
  it, gives every radiator the temperature \<open>r\<close> plus its own offset, and gives every
  heat source the cold-side temperature \<open>r\<close>.
\<close>

lemma equilibrate_body_converged:
  assumes "toms748 radiator_balance s 0 (min_T_H (snd s)) tol = Inr (r, (lims, self))"
    and "r \<noteq> 0"
  shows "equilibrate_body (T_C_property eq) toms748 s tol
         = Inr (r, (lims, self\<lparr>T_C_cache := Some r,
                             radiators := map (\<lambda>surf. set_T surf r) (radiators self),
                             heat_sources := map (\<lambda>hs. hs\<lparr>T_C := Some r\<rparr>) (heat_sources self)\<rparr>))"
proof -
  let ?s0 = "self\<lparr>T_C_cache := Some r\<rparr>"
  let ?s1 = "?s0\<lparr>radiators := map (\<lambda>surf. set_T surf r) (radiators self)\<rparr>"
  let ?s2 = "?s1\<lparr>heat_sources := map (\<lambda>hs. hs\<lparr>T_C := Some r\<rparr>) (heat_sources self)\<rparr>"
  have a: "stamp_radiators (T_C_property eq) [0..<length (radiators self)] (lims, ?s0) = Inr (lims, ?s1)"
    using stamp_radiators_from [of ?s0 r 0 eq lims] assms(2) by simp
  have b: "stamp_heat_sources (T_C_property eq) [0..<length (heat_sources ?s1)] (lims, ?s1) = Inr (lims, ?s2)"
    using stamp_heat_sources_from [of ?s1 r 0 eq lims] assms(2) by simp
  have c: "T_C_property eq (lims, ?s2) = Inr (r, (lims, ?s2))"
    using assms(2) by (simp add: T_C_property_def truthy_def)
  show ?thesis
    unfolding equilibrate_body_def assms(1) using a b c by simp
qed

lemma equilibrate_converged:
  assumes "toms748 radiator_balance s 0 (min_T_H (snd s)) tol = Inr (r, (lims, self))"
    and "r \<noteq> 0"
  shows "equilibrate (Suc d) toms748 s initial_value tol
         = Inr (r, (lims, self\<lparr>T_C_cache := Some r,
                             radiators := map (\<lambda>surf. set_T surf r) (radiators self),
                             heat_sources := map (\<lambda>hs. hs\<lparr>T_C := Some r\<rparr>) (heat_sources self)\<rparr>))"
  using assms by (simp add: equilibrate_body_converged)

section \<open>The example loops\<close>

lemma ThermalLoop_undersized_loop:
  "ThermalLoop earth (Obj (new_hs (HeatSource 1000000000))) (Obj plate) = Inr undersized_loop"
  by (simp add: ThermalLoop_def hsT_H_def new_hs_def undersized_loop_def)

lemma ThermalLoop_cold_loop:
  "ThermalLoop earth (Obj (new_hs (HeatSource 0))) (Obj plate) = Inr cold_loop"
  by (simp add: ThermalLoop_def hsT_H_def new_hs_def cold_loop_def)

lemma ThermalLoop_hot_loop:
  "ThermalLoop earth (Obj (new_hs (HeatSource 35439840.11875))) (Obj plate) = Inr hot_loop"
  by (simp add: ThermalLoop_def hsT_H_def new_hs_def hot_loop_def)

lemmas residual_defs = radiator_balance_def q_w_def new_hs_def plate_def earth_def
  radiated_heat_def direct_solar_thermal_heat_received_def stefan_boltzmann_constant_def

lemma radiator_balance_undersized_loop:
  "radiator_balance (lims, undersized_loop) t
   = Inr (5670374419 / 10 ^ 17 * t ^ 4 - 1000000000, (lims, undersized_loop))"
  by (simp add: residual_defs undersized_loop_def)

lemma radiator_balance_cold_loop:
  "radiator_balance (lims, cold_loop\<lparr>T_C_cache := c\<rparr>) t
   = Inr (5670374419 / 10 ^ 17 * t ^ 4, (lims, cold_loop\<lparr>T_C_cache := c\<rparr>))"
  by (simp add: residual_defs cold_loop_def)

lemma radiator_balance_hot_loop:
  "radiator_balance (lims, hot_loop\<lparr>T_C_cache := c\<rparr>) t
   = Inr (5670374419 / 10 ^ 17 * t ^ 4 - 35439840.11875, (lims, hot_loop\<lparr>T_C_cache := c\<rparr>))"
  by (simp add: residual_defs hot_loop_def)

lemma bisection_hot_loop:
  "bisection (Suc n) radiator_balance (lims, hot_loop\<lparr>T_C_cache := c\<rparr>) 0 (min_T_H hot_loop) tol
   = Inr (5000, (lims, hot_loop\<lparr>T_C_cache := c\<rparr>))"
  by (simp add: bisection_def radiator_balance_hot_loop) (simp add: hot_loop_def)

lemma bisection_cold_loop:
  "bisection n radiator_balance (lims, cold_loop\<lparr>T_C_cache := c\<rparr>) 0 (min_T_H cold_loop) tol
   = Inr (0, (lims, cold_loop\<lparr>T_C_cache := c\<rparr>))"
  by (simp add: bisection_def radiator_balance_cold_loop) (simp add: cold_loop_def)

text \<open>The root finder \<open>bisection\<close> refuses a bracket whose ends have the same sign.\<close>

lemma bisection_rejects_same_sign:
  assumes "f s a = Inr (fa, s1)" and "f s1 b = Inr (fb, s2)" and "0 < fa * fb"
  shows "\<exists>m. bisection n f s a b rtol = Inl (ValueError m)"
  using assms by (auto simp: bisection_def)

section \<open>Failure of the bracket\<close>

text \<open>
  C3. The root finder is assumed to do what a bracketing root finder does on such a
  bracket: when the residual at the two ends has the same sign, it raises a
  \<open>ValueError\<close>. Then, for every loop whose residual has the same sign at 0 and at
  \<open>min_T_H\<close>, \<open>equilibrate\<close> raises the \<open>ValueError\<close> whose message says that no
  radiator temperature below the minimum hot-side temperature can be found and that
  the radiator must be larger, more emissive or less absorptive; it returns no number.
\<close>

theorem equilibrate_no_sign_change:
  fixes toms748 :: "state bracketing_solver"
  assumes contract: "\<And>f s a b rtol fa s1 fb s2.
        f s a = Inr (fa, s1) \<Longrightarrow> f s1 b = Inr (fb, s2) \<Longrightarrow> 0 < fa * fb
        \<Longrightarrow> \<exists>m. toms748 f s a b rtol = Inl (ValueError m)"
    and "radiator_balance s 0 = Inr (fa, s1)"
    and "radiator_balance s1 (min_T_H (snd s)) = Inr (fb, s2)"
    and "0 < fa * fb"
  shows "equilibrate (Suc d) toms748 s initial_value tol = Inl (ValueError infeasible_msg)"
proof -
  obtain m where "toms748 radiator_balance s 0 (min_T_H (snd s)) tol = Inl (ValueError m)"
    using contract [OF assms(2) assms(3) assms(4)] by blast
  then show ?thesis by (simp add: equilibrate_body_def)
qed

theorem equilibrate_no_sign_change_witness:
  "equilibrate (Suc 0) (bisection 100) (initial_temperature_limits, undersized_loop) 273.15 0.001
     = Inl (ValueError infeasible_msg)"
proof -
  let ?s = "(initial_temperature_limits, undersized_loop)"
  have a: "radiator_balance ?s 0 = Inr (- 1000000000, ?s)"
    by (simp add: radiator_balance_undersized_loop)
  have b: "radiator_balance ?s (min_T_H (snd ?s)) = Inr (- 432962558.1, ?s)"
    by (simp add: radiator_balance_undersized_loop) (simp add: undersized_loop_def)
  have c: "(0::real) < - 1000000000 * - 432962558.1" by simp
  show ?thesis
    by (rule equilibrate_no_sign_change [OF _ a b c]) (rule bisection_rejects_same_sign)
qed

text \<open>
  The loop of a 100 W source and a radiator of 0.01 square metres and emissivity 0.01
  is not such a loop: at 10000 K the radiator emits more than 56 kW, so the residual
  changes sign over the bracket.
\<close>

lemma ThermalLoop_small_loop:
  "ThermalLoop earth (Obj (new_hs (HeatSource 100))) (Obj small_radiator) = Inr small_loop"
  by (simp add: ThermalLoop_def hsT_H_def new_hs_def small_loop_def)

lemma small_loop_has_sign_change:
  "radiator_balance (lims, small_loop) 0 = Inr (- 106.90365, (lims, small_loop))
   \<and> radiator_balance (lims, small_loop) (min_T_H small_loop) = Inr (56596.84054, (lims, small_loop))"
  by (simp add: radiator_balance_def q_w_def new_hs_def earth_def radiated_heat_def
      direct_solar_thermal_heat_received_def stefan_boltzmann_constant_def
      small_loop_def small_radiator_def)

section \<open>The argument \<open>initial_value\<close>\<close>

text \<open>
  C10. The result of \<open>equilibrate\<close>, the solved temperature and every object it
  writes, is the same for any two values of \<open>initial_value\<close>: the argument is not
  given to the root finder, which sees the residual, the bracket and the tolerance.
\<close>

theorem equilibrate_ignores_initial_value:
  "equilibrate d toms748 s v1 tol = equilibrate d toms748 s v2 tol"
  by (cases d) simp_all

section \<open>The lazy accessor\<close>

text \<open>
  When the solve returns a non-zero temperature, the first read of \<open>T_C\<close> solves
  once and caches, and a later read returns the cached value whatever the root finder
  would do: it is not called.
\<close>

lemma read_T_C_first:
  assumes "T_C_cache (snd s) = None"
    and "toms748 radiator_balance s 0 (min_T_H (snd s)) 0.001 = Inr (r, (lims, self))"
    and "r \<noteq> 0"
  shows "read_T_C (Suc d) toms748 s
         = Inr (r, (lims, self\<lparr>T_C_cache := Some r,
                             radiators := map (\<lambda>surf. set_T surf r) (radiators self),
                             heat_sources := map (\<lambda>hs. hs\<lparr>T_C := Some r\<rparr>) (heat_sources self)\<rparr>))"
  using assms by (simp add: read_T_C_def T_C_property_def truthy_def equilibrate_body_converged)

lemma read_T_C_second:
  assumes "T_C_cache self = Some r" and "r \<noteq> 0"
  shows "read_T_C d any_solver (lims, self) = Inr (r, (lims, self))"
  using assms by (simp add: read_T_C_def T_C_property_def truthy_def)

text \<open>
  A solve that returns 0 leaves a cache that the property takes for empty, so
  \<open>equilibrate\<close> and the property call each other until the recursion limit.
\<close>

lemma equilibrate_cold_loop:
  "equilibrate d (bisection n) (lims, cold_loop\<lparr>T_C_cache := c\<rparr>) iv tol = Inl RecursionError"
proof (induction d arbitrary: c iv tol)
  case 0
  show ?case by simp
next
  case (Suc d)
  have len: "length (radiators cold_loop) = Suc 0"
    by (simp add: cold_loop_def)
  show ?case
    by (simp add: equilibrate_body_def bisection_cold_loop len T_C_property_def truthy_def Suc.IH)
qed

text \<open>
  C6 fails on the loop \<open>ThermalLoop(loc, HeatSource(), Surface(1, 1, 1, 0))\<close>: no heat
  load and no absorbed sunlight, so the residual vanishes at 0 K and the solve returns
  0. The first read of \<open>T_C\<close> does not return a cached value: whatever the recursion
  limit, it ends in \<open>RecursionError\<close>, after one solve at every level of the recursion.
\<close>

theorem read_T_C_zero_root_recursion:
  "read_T_C d (bisection n) (lims, cold_loop) = Inl RecursionError"
  using equilibrate_cold_loop [of d n lims None]
  by (simp add: read_T_C_def T_C_property_def truthy_def cold_loop_def)

section \<open>What the two solvers write\<close>

lemma ThermalLoop_offset_loop:
  "ThermalLoop earth (Obj (new_hs (HeatSource 0))) (Obj offset_plate) = Inr offset_loop"
  by (simp add: ThermalLoop_def hsT_H_def new_hs_def offset_loop_def)

text \<open>
  A converged \<open>SolarAbsorber\<close> holds the solved \<open>T_H\<close> and the two totals, and every
  one of its surfaces holds \<open>T_H\<close> itself in its field \<open>T\<close>: the assignment does not
  go through \<open>set_T\<close>, so the offset of the surface is not added.
\<close>

lemma SolarAbsorber_init_converged:
  assumes "clean_surfaces_input surfaces_arg = Inr surfs"
    and "sum_qt \<le> sum_list (map (\<lambda>surf. direct_solar_thermal_heat_received surf l) surfs)"
    and "newton (absorber_balance sum_qt
            (sum_list (map (\<lambda>surf. direct_solar_thermal_heat_received surf l) surfs)) surfs)
            273.15 0.001 2000 = Inr h"
  shows "SolarAbsorber_init newton l (PyFloat sum_qt) surfaces_arg
         = Inr \<lparr>body = SolarAbsorber sum_qt h (map (\<lambda>surf. surf\<lparr>T := Some h\<rparr>) surfs)
                   (sum_list (map (\<lambda>surf. direct_solar_thermal_heat_received surf l) surfs))
                   (sum_list (map (\<lambda>surf. radiated_heat surf h) surfs)),
                 T_C = None\<rparr>"
  using assms
  by (simp add: SolarAbsorber_init_def first_sum_qt_def second_sum_qt_def py_sum_def)

lemma radiator_balance_offset_loop:
  "radiator_balance (lims, offset_loop) t
   = Inr (5670374419 / 10 ^ 17 * (t - 12.5) ^ 4 - 459.300327939, (lims, offset_loop))"
  by (simp add: radiator_balance_def q_w_def new_hs_def earth_def radiated_heat_def
      direct_solar_thermal_heat_received_def stefan_boltzmann_constant_def
      offset_loop_def offset_plate_def)

lemma bisection_offset_loop:
  "bisection (Suc (Suc (Suc (Suc (Suc n))))) radiator_balance (lims, offset_loop) 0 10000 (1 / 1000)
   = Inr (312.5, (lims, offset_loop))"
  by (simp add: bisection_def radiator_balance_offset_loop power_divide)

lemma SolarAbsorber_init_offset_plate:
  "SolarAbsorber_init (propose 312.5) earth (PyInt 0) (Obj offset_plate)
   = Inr \<lparr>body = SolarAbsorber 0 312.5 [offset_plate\<lparr>T := Some 312.5\<rparr>]
                   459.300327939 459.300327939,
           T_C = None\<rparr>"
  by (simp add: SolarAbsorber_init_def first_sum_qt_def second_sum_qt_def py_sum_def Let_def
      propose_def absorber_balance_def radiated_heat_def direct_solar_thermal_heat_received_def
      stefan_boltzmann_constant_def offset_plate_def earth_def)

lemma equilibrate_offset_loop:
  "equilibrate (Suc 0) (bisection 100) (initial_temperature_limits, offset_loop) 273.15 0.001
   = Inr (312.5, (initial_temperature_limits,
        offset_loop\<lparr>T_C_cache := Some 312.5, radiators := [offset_plate\<lparr>T := Some 300\<rparr>],
           heat_sources := [\<lparr>body = HeatSource 0, T_C = Some 312.5\<rparr>]\<rparr>))"
proof -
  have n: "(100::nat) = Suc (Suc (Suc (Suc (Suc 95))))" by simp
  have "bisection 100 radiator_balance (initial_temperature_limits, offset_loop) 0
          (min_T_H (snd (initial_temperature_limits, offset_loop))) 0.001
        = Inr (312.5, (initial_temperature_limits, offset_loop))"
    unfolding n using bisection_offset_loop [of 95 initial_temperature_limits]
    by (simp add: offset_loop_def)
  then have "equilibrate (Suc 0) (bisection 100) (initial_temperature_limits, offset_loop) 273.15 0.001
      = Inr (312.5, (initial_temperature_limits,
           offset_loop\<lparr>T_C_cache := Some 312.5,
             radiators := map (\<lambda>surf. set_T surf 312.5) (radiators offset_loop),
             heat_sources := map (\<lambda>hs. hs\<lparr>T_C := Some 312.5\<rparr>) (heat_sources offset_loop)\<rparr>))"
    by (rule equilibrate_converged
          [of "bisection 100" "(initial_temperature_limits, offset_loop)" "0.001" "312.5"
              initial_temperature_limits offset_loop 0 "273.15"]) simp
  then show ?thesis
    by (simp add: offset_loop_def set_T_def offset_plate_def new_hs_def)
qed

text \<open>
  C2 fails where a surface has a temperature offset. The same surface, in the same
  balance with the sunlight at a system temperature of 312.5 K: as the surface of a
  \<open>SolarAbsorber\<close> it is given \<open>T = 312.5\<close>, the solved temperature itself, and as
  the radiator of a \<open>ThermalLoop\<close> it is given \<open>T = 300\<close>, the solved temperature plus
  its offset, which is the temperature both residuals let it radiate at.
\<close>

theorem stamps_differ_under_offset:
  "SolarAbsorber_init (propose 312.5) earth (PyInt 0) (Obj offset_plate)
     = Inr \<lparr>body = SolarAbsorber 0 312.5 [offset_plate\<lparr>T := Some 312.5\<rparr>]
                     459.300327939 459.300327939,
             T_C = None\<rparr>
   \<and> equilibrate (Suc 0) (bisection 100) (initial_temperature_limits, offset_loop) 273.15 0.001
     = Inr (312.5, (initial_temperature_limits,
          offset_loop\<lparr>T_C_cache := Some 312.5, radiators := [offset_plate\<lparr>T := Some 300\<rparr>],
             heat_sources := [\<lparr>body = HeatSource 0, T_C = Some 312.5\<rparr>]\<rparr>))"
  using SolarAbsorber_init_offset_plate equilibrate_offset_loop by simp

section \<open>The argument \<open>qt\<close> of SolarAbsorber\<close>

text \<open>A float is taken as it is, and a list of floats is summed.\<close>

lemma py_sum_from_floats:
  "py_sum_from (PyFloat a) (map PyFloat xs) = Inr (PyFloat (a + sum_list xs))"
  by (induction xs arbitrary: a) (simp_all add: add.assoc)

lemma number_of_py_sum_floats:
  "map_sum id number_of (py_sum (map PyFloat xs)) = Inr (Inr (sum_list xs))"
  by (cases xs) (simp_all add: py_sum_def py_sum_from_floats)

lemma qt_float_accepted:
  "first_sum_qt (PyFloat x) = Inr (PyFloat x) \<and> second_sum_qt (PyFloat x) = Inr (PyFloat x)"
  by (simp add: first_sum_qt_def second_sum_qt_def py_sum_def)

lemma qt_list_accepted:
  "first_sum_qt (PyList (map PyFloat xs)) = py_sum (map PyFloat xs)
   \<and> second_sum_qt (PyList (map PyFloat xs)) = py_sum (map PyFloat xs)"
  by (simp add: first_sum_qt_def second_sum_qt_def)

text \<open>A string or \<open>None\<close> fails in the first statement, before the \<open>isinstance\<close> chain.\<close>

lemma qt_str_TypeError: "SolarAbsorber_init newton l (PyStr s) surfaces_arg = Inl TypeError"
  by (simp add: SolarAbsorber_init_def first_sum_qt_def py_sum_def)

lemma qt_None_TypeError: "SolarAbsorber_init newton l PyNone surfaces_arg = Inl TypeError"
  by (simp add: SolarAbsorber_init_def first_sum_qt_def py_sum_def)

text \<open>An extraction above the absorbed sunlight is refused, with the two totals.\<close>

lemma format_0f_examples:
  "format_0f 1000.4 = ''1000'' \<and> format_0f 2.5 = ''2'' \<and> format_0f 3.5 = ''4'' \<and> format_0f 0 = ''0''"
  by code_simp

lemma SolarAbsorber_init_exceeds:
  "SolarAbsorber_init newton earth (PyFloat 1000.4) (Obj plate)
   = Inl (ValueError ''The sum of qt (~1000 W), the power pulled from the solar absorber, is greater than the energy that it is receiving (~0). Quitting.'')"
  using format_0f_examples
  by (simp add: SolarAbsorber_init_def first_sum_qt_def second_sum_qt_def py_sum_def
      direct_solar_thermal_heat_received_def plate_def earth_def exceeds_msg_def)

text \<open>
  C4 fails on every mapping: the first statement of the constructor adds the dict to
  the integer 0, which raises \<open>TypeError\<close>; the branch of the \<open>isinstance\<close> chain
  that sums the values of a dict is never reached.
\<close>

theorem SolarAbsorber_init_dict_TypeError:
  "SolarAbsorber_init newton l (PyDict kvs) surfaces_arg = Inl TypeError"
  by (simp add: SolarAbsorber_init_def first_sum_qt_def py_sum_def)

section \<open>The modes of Reactor\<close>

text \<open>The lines of the message after the first, and the pairs that resolve.\<close>

lemma catalogue_lines_eq:
  "catalogue_lines =
     [tab @ ''fission_frontiers:'',
      tab @ tab @ ''tarasque'',
      tab @ tab @ ''guivre'',
      tab @ tab @ ''peluda'',
      tab @ tab @ ''lindworm'',
      tab @ tab @ ''wyvern'',
      tab @ ''fusion_founders:'',
      tab @ tab @ ''standard_reactor'']"
  by (simp add: catalogue_lines_def reactors_def)

lemma catalogue_lookup_valid:
  "catalogue_lookup b' m' \<noteq> None \<longleftrightarrow>
     (lower b', lower m') \<in> set
       [(''fission_frontiers'', ''tarasque''),
              (''fission_frontiers'', ''guivre''),
              (''fission_frontiers'', ''peluda''),
              (''fission_frontiers'', ''lindworm''),
              (''fission_frontiers'', ''wyvern''),
              (''fusion_founders'', ''standard_reactor'')]"
proof -
  have "(case map_of reactors x of None \<Rightarrow> None | Some models \<Rightarrow> map_of models y) \<noteq> None \<longleftrightarrow>
     (x, y) \<in> set
       [(''fission_frontiers'', ''tarasque''),
              (''fission_frontiers'', ''guivre''),
              (''fission_frontiers'', ''peluda''),
              (''fission_frontiers'', ''lindworm''),
              (''fission_frontiers'', ''wyvern''),
              (''fusion_founders'', ''standard_reactor'')]" for x y
    by (simp add: reactors_def)
  then show ?thesis by (simp add: catalogue_lookup_def)
qed

lemma Reactor_init_custom:
  "truthy q \<Longrightarrow> truthy h \<Longrightarrow> \<not> (truthy_str b \<and> truthy_str m)
   \<Longrightarrow> Reactor_init q h b m = Inr \<lparr>body = Reactor (the q) (the h), T_C = None\<rparr>"
  by (simp add: Reactor_init_def Let_def)

lemma Reactor_init_library:
  "\<not> (truthy q \<and> truthy h) \<Longrightarrow> truthy_str b \<Longrightarrow> truthy_str m
   \<Longrightarrow> catalogue_lookup (the b) (the m) = Some (q', h')
   \<Longrightarrow> Reactor_init q h b m = Inr \<lparr>body = Reactor q' h', T_C = None\<rparr>"
  by (auto simp: Reactor_init_def Let_def)

lemma Reactor_init_under:
  "\<not> (truthy q \<and> truthy h) \<Longrightarrow> \<not> (truthy_str b \<and> truthy_str m)
   \<Longrightarrow> Reactor_init q h b m = Inl (ValueError under_defined_msg)"
  by (simp add: Reactor_init_def Let_def)

lemma Reactor_init_over:
  "truthy q \<Longrightarrow> truthy h \<Longrightarrow> truthy_str b \<Longrightarrow> truthy_str m
   \<Longrightarrow> Reactor_init q h b m = Inl (ValueError over_defined_msg)"
  by (simp add: Reactor_init_def Let_def)

lemma Reactor_init_not_found:
  "\<not> (truthy q \<and> truthy h) \<Longrightarrow> truthy_str b \<Longrightarrow> truthy_str m
   \<Longrightarrow> catalogue_lookup (the b) (the m) = None
   \<Longrightarrow> Reactor_init q h b m = Inl (ValueError (join newline (not_found_lines (the b) (the m))))"
  by (auto simp: Reactor_init_def Let_def not_found_msg_def)


text \<open>
  C5 (as the code has it). An argument counts as supplied when it is truthy: a number
  other than \<open>None\<close> and 0, a string other than \<open>None\<close> and the empty one. The
  construction succeeds exactly when one mode is complete and the other is not: \<open>qt\<close>
  and \<open>T_H\<close> both supplied (the reactor has the given pair), or \<open>brand\<close> and \<open>model\<close>
  both supplied and resolving in the catalogue (the reactor has the catalogue's pair).
  Neither mode, both modes, and a pair that does not resolve each raise a
  \<open>ValueError\<close>. The message of the last names the pair asked for and then
  enumerates the catalogue: each brand on a line, followed by one line for each of its
  models; the pairs so listed are exactly the pairs that resolve.
\<close>

theorem Reactor_init_modes:
  "(truthy q \<and> truthy h \<and> \<not> (truthy_str b \<and> truthy_str m)
      \<longrightarrow> Reactor_init q h b m = Inr \<lparr>body = Reactor (the q) (the h), T_C = None\<rparr>)
   \<and> (\<not> (truthy q \<and> truthy h) \<and> truthy_str b \<and> truthy_str m
        \<and> catalogue_lookup (the b) (the m) = Some (q', h')
      \<longrightarrow> Reactor_init q h b m = Inr \<lparr>body = Reactor q' h', T_C = None\<rparr>)
   \<and> (\<not> (truthy q \<and> truthy h) \<and> \<not> (truthy_str b \<and> truthy_str m)
      \<longrightarrow> Reactor_init q h b m = Inl (ValueError under_defined_msg))
   \<and> (truthy q \<and> truthy h \<and> truthy_str b \<and> truthy_str m
      \<longrightarrow> Reactor_init q h b m = Inl (ValueError over_defined_msg))
   \<and> (\<not> (truthy q \<and> truthy h) \<and> truthy_str b \<and> truthy_str m
        \<and> catalogue_lookup (the b) (the m) = None
      \<longrightarrow> Reactor_init q h b m
          = Inl (ValueError (join newline
                [''Reactor '' @ quote @ the m @ quote @ '' by '' @ quote @ the b @ quote
                   @ '' cannot be found! The valid brands and their models are:'',
                 tab @ ''fission_frontiers:'',
                 tab @ tab @ ''tarasque'',
                 tab @ tab @ ''guivre'',
                 tab @ tab @ ''peluda'',
                 tab @ tab @ ''lindworm'',
                 tab @ tab @ ''wyvern'',
                 tab @ ''fusion_founders:'',
                 tab @ tab @ ''standard_reactor''])))
   \<and> (catalogue_lookup b' m' \<noteq> None \<longleftrightarrow>
        (lower b', lower m') \<in> set
             [(''fission_frontiers'', ''tarasque''),
              (''fission_frontiers'', ''guivre''),
              (''fission_frontiers'', ''peluda''),
              (''fission_frontiers'', ''lindworm''),
              (''fission_frontiers'', ''wyvern''),
              (''fusion_founders'', ''standard_reactor'')])
   \<and> ((\<exists>r. Reactor_init q h b m = Inr r) \<longleftrightarrow>
        (truthy q \<and> truthy h \<and> \<not> (truthy_str b \<and> truthy_str m))
        \<or> (\<not> (truthy q \<and> truthy h) \<and> truthy_str b \<and> truthy_str m
            \<and> catalogue_lookup (the b) (the m) \<noteq> None))"
proof -
  let ?custom = "truthy q \<and> truthy h"
  let ?library = "truthy_str b \<and> truthy_str m"
  have c1: "truthy q \<and> truthy h \<and> \<not> ?library
      \<longrightarrow> Reactor_init q h b m = Inr \<lparr>body = Reactor (the q) (the h), T_C = None\<rparr>"
    using Reactor_init_custom [of q h b m] by blast
  have c2: "\<not> ?custom \<and> truthy_str b \<and> truthy_str m
        \<and> catalogue_lookup (the b) (the m) = Some (q', h')
      \<longrightarrow> Reactor_init q h b m = Inr \<lparr>body = Reactor q' h', T_C = None\<rparr>"
    using Reactor_init_library [of q h b m q' h'] by blast
  have c3: "\<not> ?custom \<and> \<not> ?library
      \<longrightarrow> Reactor_init q h b m = Inl (ValueError under_defined_msg)"
    using Reactor_init_under [of q h b m] by blast
  have c4: "truthy q \<and> truthy h \<and> truthy_str b \<and> truthy_str m
      \<longrightarrow> Reactor_init q h b m = Inl (ValueError over_defined_msg)"
    using Reactor_init_over [of q h b m] by blast
  have c5: "\<not> (truthy q \<and> truthy h) \<and> truthy_str b \<and> truthy_str m
        \<and> catalogue_lookup (the b) (the m) = None
      \<longrightarrow> Reactor_init q h b m
          = Inl (ValueError (join newline
                [''Reactor '' @ quote @ the m @ quote @ '' by '' @ quote @ the b @ quote
                   @ '' cannot be found! The valid brands and their models are:'',
                 tab @ ''fission_frontiers:'',
                 tab @ tab @ ''tarasque'',
                 tab @ tab @ ''guivre'',
                 tab @ tab @ ''peluda'',
                 tab @ tab @ ''lindworm'',
                 tab @ tab @ ''wyvern'',
                 tab @ ''fusion_founders:'',
                 tab @ tab @ ''standard_reactor'']))"
    using Reactor_init_not_found [of q h b m]
    by (simp add: not_found_lines_def catalogue_lines_eq)
  have c6: "catalogue_lookup b' m' \<noteq> None \<longleftrightarrow>
        (lower b', lower m') \<in> set
             [(''fission_frontiers'', ''tarasque''),
              (''fission_frontiers'', ''guivre''),
              (''fission_frontiers'', ''peluda''),
              (''fission_frontiers'', ''lindworm''),
              (''fission_frontiers'', ''wyvern''),
              (''fusion_founders'', ''standard_reactor'')]"
    by (rule catalogue_lookup_valid)
  have c7: "(\<exists>r. Reactor_init q h b m = Inr r) \<longleftrightarrow>
        (truthy q \<and> truthy h \<and> \<not> ?library)
        \<or> (\<not> ?custom \<and> truthy_str b \<and> truthy_str m
            \<and> catalogue_lookup (the b) (the m) \<noteq> None)"
  proof (cases ?custom)
    case True
    show ?thesis
    proof (cases ?library)
      case True
      with \<open>?custom\<close> show ?thesis by (simp add: Reactor_init_over)
    next
      case False
      with \<open>?custom\<close> show ?thesis by (simp add: Reactor_init_custom)
    qed
  next
    case False
    show ?thesis
    proof (cases ?library)
      case lib: True
      show ?thesis
      proof (cases "catalogue_lookup (the b) (the m)")
        case None
        with False lib show ?thesis by (simp add: Reactor_init_not_found)
      next
        case (Some p)
        obtain q'' h'' where "p = (q'', h'')" by (cases p)
        with Some False lib show ?thesis by (simp add: Reactor_init_library)
      qed
    next
      case nolib: False
      with False show ?thesis by (auto simp: Reactor_init_under)
    qed
  qed
  show ?thesis
    by (rule conjI [OF c1 conjI [OF c2 conjI [OF c3 conjI [OF c4 conjI [OF c5 conjI [OF c6 c7]]]]]])
qed

theorem Reactor_init_modes_witness:
  "Reactor_init (Some 1000000) (Some 900) None None = Inr \<lparr>body = Reactor 1000000 900, T_C = None\<rparr>
   \<and> Reactor_init None None (Some ''Fission_Frontiers'') (Some ''Wyvern'')
       = Inr \<lparr>body = Reactor 250000000 600, T_C = None\<rparr>
   \<and> Reactor_init None (Some 900) (Some ''fusion_founders'') None = Inl (ValueError under_defined_msg)
   \<and> Reactor_init (Some 1000000) (Some 900) (Some ''fusion_founders'') (Some ''standard_reactor'')
       = Inl (ValueError over_defined_msg)
   \<and> Reactor_init None None (Some ''fusion_founders'') (Some ''wyvern'')
       = Inl (ValueError (join newline
               [''Reactor 'wyvern' by 'fusion_founders' cannot be found! The valid brands and their models are:'',
                tab @ ''fission_frontiers:'',
                tab @ tab @ ''tarasque'',
                tab @ tab @ ''guivre'',
                tab @ tab @ ''peluda'',
                tab @ tab @ ''lindworm'',
                tab @ tab @ ''wyvern'',
                tab @ ''fusion_founders:'',
                tab @ tab @ ''standard_reactor'']))"
proof -
  have l1: "catalogue_lookup ''Fission_Frontiers'' ''Wyvern'' = Some (250000000, 600)"
    by code_simp
  have l2: "catalogue_lookup ''fusion_founders'' ''wyvern'' = None"
    by code_simp
  have w1: "Reactor_init (Some 1000000) (Some 900) None None
      = Inr \<lparr>body = Reactor 1000000 900, T_C = None\<rparr>"
    using Reactor_init_modes [of "Some 1000000" "Some 900" None None, THEN conjunct1]
    by (simp add: truthy_def truthy_str_def)
  have w2: "Reactor_init None None (Some ''Fission_Frontiers'') (Some ''Wyvern'')
      = Inr \<lparr>body = Reactor 250000000 600, T_C = None\<rparr>"
    using Reactor_init_modes [of None None "Some ''Fission_Frontiers''" "Some ''Wyvern''" 250000000 600,
        THEN conjunct2, THEN conjunct1] l1
    by (simp add: truthy_def truthy_str_def)
  have w3: "Reactor_init None (Some 900) (Some ''fusion_founders'') None
      = Inl (ValueError under_defined_msg)"
    using Reactor_init_modes [of None "Some 900" "Some ''fusion_founders''" None,
        THEN conjunct2, THEN conjunct2, THEN conjunct1]
    by (simp add: truthy_def truthy_str_def)
  have w4: "Reactor_init (Some 1000000) (Some 900) (Some ''fusion_founders'') (Some ''standard_reactor'')
      = Inl (ValueError over_defined_msg)"
    using Reactor_init_modes [of "Some 1000000" "Some 900" "Some ''fusion_founders''"
        "Some ''standard_reactor''", THEN conjunct2, THEN conjunct2, THEN conjunct2, THEN conjunct1]
    by (simp add: truthy_def truthy_str_def)
  have w5: "Reactor_init None None (Some ''fusion_founders'') (Some ''wyvern'')
      = Inl (ValueError (join newline
               [''Reactor 'wyvern' by 'fusion_founders' cannot be found! The valid brands and their models are:'',
                tab @ ''fission_frontiers:'',
                tab @ tab @ ''tarasque'',
                tab @ tab @ ''guivre'',
                tab @ tab @ ''peluda'',
                tab @ tab @ ''lindworm'',
                tab @ tab @ ''wyvern'',
                tab @ ''fusion_founders:'',
                tab @ tab @ ''standard_reactor'']))"
    using Reactor_init_modes [of None None "Some ''fusion_founders''" "Some ''wyvern''",
        THEN conjunct2, THEN conjunct2, THEN conjunct2, THEN conjunct2, THEN conjunct1] l2
    by (simp add: truthy_def truthy_str_def quote_def)
  show ?thesis
    by (rule conjI [OF w1 conjI [OF w2 conjI [OF w3 conjI [OF w4 w5]]]])
qed

text \<open>
  C5 as stated fails: \<open>Reactor(qt = 0, T_H = 1300)\<close> supplies both values of the
  explicit pair and nothing else, and the construction raises.
\<close>

theorem Reactor_init_zero_counterexample:
  "Reactor_init (Some 0) (Some 1300) None None = Inl (ValueError under_defined_msg)"
  by (simp add: Reactor_init_def truthy_def truthy_str_def)

section \<open>The temperature window of Photovoltaic\<close>

lemma Photovoltaic_init_weak_panel:
  "Photovoltaic_init earth 0.1 298.15 0 (Obj plate) = Inr \<lparr>body = Photovoltaic weak_panel, T_C = None\<rparr>"
  by (simp add: Photovoltaic_init_def weak_panel_def plate_def)

lemma Photovoltaic_init_strong_panel:
  "Photovoltaic_init earth 0.33 298.15 0 (Obj plate) = Inr \<lparr>body = Photovoltaic strong_panel, T_C = None\<rparr>"
  by (simp add: Photovoltaic_init_def strong_panel_def plate_def)

lemmas panel_defs = eta_overall_def c_a_def eta_N_def c_t_def c_a_at_earth_def
  non_optimal_illumination_factor_def initial_temperature_limits_def earth_def

text \<open>
  C8 fails on the first call that passes the window test: the test is made against the
  class-level limits as they are before the call, and only then is the upper limit
  derived. A panel of lab efficiency 0.1 has the derived upper limit 338.15 K; its
  first call, at 400 K, is inside the default window and returns the negative
  efficiency - 0.1237, where the claim says 0. The same call once more returns 0.
\<close>

theorem eta_overall_first_call_negative:
  "eta_overall weak_panel initial_temperature_limits 400
     = Inr (- 0.1237, initial_temperature_limits\<lparr>limit_max := 338.15\<rparr>,
            weak_panel\<lparr>eta_non_thermal := Some 0.08\<rparr>)
   \<and> eta_overall (weak_panel\<lparr>eta_non_thermal := Some 0.08\<rparr>)
        (initial_temperature_limits\<lparr>limit_max := 338.15\<rparr>) 400
     = Inr (0, initial_temperature_limits\<lparr>limit_max := 338.15\<rparr>,
            weak_panel\<lparr>eta_non_thermal := Some 0.08\<rparr>)"
  by (simp add: panel_defs weak_panel_def)

text \<open>
  C9 as stated fails: a first evaluation that does not pass the window test, such as
  the one at 0 K every loop solve starts with, leaves the class-level limits as they
  are.
\<close>

theorem eta_overall_out_of_window_counterexample:
  "eta_overall weak_panel initial_temperature_limits 0
     = Inr (0, initial_temperature_limits, weak_panel)"
  by (simp add: eta_overall_def initial_temperature_limits_def)

text \<open>
  C9 (as the code has it). The limits are one piece of state for all panels. The first
  evaluation of a panel \<open>p1\<close> that passes the window test overwrites the upper limit
  with the bound derived from \<open>p1\<close>. Any other panel \<open>p2\<close> is then tested against that
  bound: at or above it \<open>p2\<close> yields 0 whatever its own parameters are, and below it
  the first such evaluation of \<open>p2\<close> overwrites the upper limit in turn.
\<close>

theorem temperature_limit_is_shared:
  assumes "eta_non_thermal p1 = None" and "limit_min lims < t1" and "t1 < limit_max lims"
    and "c_a p1 = Inr ca1" and "eta_N p1 + age_years p1 * ca1 = e1"
    and "eta_N p2 + age_years p2 * ca2 = e2"
  shows "eta_overall p1 lims t1
           = Inr (e1 + c_t * (t1 - T_ref p1), lims\<lparr>limit_max := - e1 / c_t + T_ref p1\<rparr>,
                  p1\<lparr>eta_non_thermal := Some e1\<rparr>)
         \<and> (limit_min lims < t2 \<and> - e1 / c_t + T_ref p1 \<le> t2
              \<longrightarrow> eta_overall p2 (lims\<lparr>limit_max := - e1 / c_t + T_ref p1\<rparr>) t2
                    = Inr (0, lims\<lparr>limit_max := - e1 / c_t + T_ref p1\<rparr>, p2))
         \<and> (limit_min lims < t2 \<and> t2 < - e1 / c_t + T_ref p1
              \<and> eta_non_thermal p2 = None \<and> c_a p2 = Inr ca2
              \<longrightarrow> eta_overall p2 (lims\<lparr>limit_max := - e1 / c_t + T_ref p1\<rparr>) t2
                    = Inr (e2 + c_t * (t2 - T_ref p2), lims\<lparr>limit_max := - e2 / c_t + T_ref p2\<rparr>,
                           p2\<lparr>eta_non_thermal := Some e2\<rparr>))"
  using assms by (simp add: eta_overall_def Let_def)


theorem temperature_limit_is_shared_witness:
  "eta_overall weak_panel initial_temperature_limits 300
     = Inr (0.0763, initial_temperature_limits\<lparr>limit_max := 338.15\<rparr>,
            weak_panel\<lparr>eta_non_thermal := Some 0.08\<rparr>)
   \<and> eta_overall strong_panel (initial_temperature_limits\<lparr>limit_max := 338.15\<rparr>) 350
     = Inr (0, initial_temperature_limits\<lparr>limit_max := 338.15\<rparr>, strong_panel)
   \<and> eta_overall strong_panel (initial_temperature_limits\<lparr>limit_max := 338.15\<rparr>) 300
     = Inr (0.2603, initial_temperature_limits\<lparr>limit_max := 430.15\<rparr>,
            strong_panel\<lparr>eta_non_thermal := Some 0.264\<rparr>)"
proof -
  have a: "eta_non_thermal weak_panel = None" by (simp add: weak_panel_def)
  have b: "limit_min initial_temperature_limits < 300"
    by (simp add: initial_temperature_limits_def)
  have c: "300 < limit_max initial_temperature_limits"
    by (simp add: initial_temperature_limits_def)
  have d: "c_a weak_panel = Inr (- 0.034)"
    by (simp add: c_a_def c_a_at_earth_def weak_panel_def earth_def)
  have e: "eta_N weak_panel + age_years weak_panel * (- 0.034) = 0.08"
    by (simp add: eta_N_def non_optimal_illumination_factor_def weak_panel_def)
  have f: "eta_N strong_panel + age_years strong_panel * (- 0.034) = 0.264"
    by (simp add: eta_N_def non_optimal_illumination_factor_def strong_panel_def)
  have g: "c_a strong_panel = Inr (- 0.034)"
    by (simp add: c_a_def c_a_at_earth_def strong_panel_def earth_def)
  have h: "eta_non_thermal strong_panel = None" by (simp add: strong_panel_def)
  note t1 = temperature_limit_is_shared [OF a b c d e f, of 350]
  note t2 = temperature_limit_is_shared [OF a b c d e f, of 300]
  have w1: "eta_overall weak_panel initial_temperature_limits 300
     = Inr (0.0763, initial_temperature_limits\<lparr>limit_max := 338.15\<rparr>,
            weak_panel\<lparr>eta_non_thermal := Some 0.08\<rparr>)"
    using t1 [THEN conjunct1] by (simp add: c_t_def weak_panel_def)
  have w2: "eta_overall strong_panel (initial_temperature_limits\<lparr>limit_max := 338.15\<rparr>) 350
     = Inr (0, initial_temperature_limits\<lparr>limit_max := 338.15\<rparr>, strong_panel)"
    using t1 [THEN conjunct2, THEN conjunct1] b
    by (simp add: c_t_def weak_panel_def initial_temperature_limits_def)
  have w3: "eta_overall strong_panel (initial_temperature_limits\<lparr>limit_max := 338.15\<rparr>) 300
     = Inr (0.2603, initial_temperature_limits\<lparr>limit_max := 430.15\<rparr>,
            strong_panel\<lparr>eta_non_thermal := Some 0.264\<rparr>)"
    using t2 [THEN conjunct2, THEN conjunct2] g h
    by (simp add: c_t_def weak_panel_def strong_panel_def initial_temperature_limits_def)
  show ?thesis by (rule conjI [OF w1 conjI [OF w2 w3]])
qed

section \<open>Larger and more emissive radiators\<close>





lemma ThermalLoop_reactor_loop:
  "ThermalLoop earth (Obj (new_hs (Reactor 918600.655878 600))) (Obj (plate\<lparr>emission_area := a\<rparr>))
   = Inr (reactor_loop a)"
  by (simp add: ThermalLoop_def hsT_H_def new_hs_def reactor_loop_def)

lemma ThermalLoop_sunken_loop:
  "ThermalLoop earth (Obj (new_hs (Turbine 5.670374419 200))) (Obj (sunken_radiator a))
   = Inr (sunken_loop a)"
  by (simp add: ThermalLoop_def hsT_H_def new_hs_def sunken_loop_def)


















end
